theory Spec2Isabelle
  imports Main "HOL-Library.Word"
begin

unbundle bit_operations_syntax

section \<open>The generated opcode header \<open>opcodes.h\<close>\<close>

text \<open>
  The header consists of three parts: one \<open>#define\<close> per opcode of the virtual machine,
  the eight \<open>OPFLG_*\<close> property bits together with the table \<open>OPFLG_INITIALIZER\<close> that
  gives the property byte of every opcode, and the constant \<open>SQLITE_MX_JUMP_OPCODE\<close>.
  Each part is transcribed below in the order of the header.
\<close>

subsection \<open>Opcode numbers\<close>

text \<open>
  Every \<open>#define OP_x n\<close> of the header becomes a constant of the same name. The
  defining equations are collected under \<open>opcode_values\<close>.
\<close>

named_theorems opcode_values

definition OP_Savepoint :: nat where [opcode_values]: "OP_Savepoint = 0"
definition OP_AutoCommit :: nat where [opcode_values]: "OP_AutoCommit = 1"
definition OP_Transaction :: nat where [opcode_values]: "OP_Transaction = 2"
definition OP_Checkpoint :: nat where [opcode_values]: "OP_Checkpoint = 3"
definition OP_JournalMode :: nat where [opcode_values]: "OP_JournalMode = 4"
definition OP_Vacuum :: nat where [opcode_values]: "OP_Vacuum = 5"
definition OP_VFilter :: nat where [opcode_values]: "OP_VFilter = 6"
definition OP_VUpdate :: nat where [opcode_values]: "OP_VUpdate = 7"
definition OP_Init :: nat where [opcode_values]: "OP_Init = 8"
definition OP_Goto :: nat where [opcode_values]: "OP_Goto = 9"
definition OP_Gosub :: nat where [opcode_values]: "OP_Gosub = 10"
definition OP_InitCoroutine :: nat where [opcode_values]: "OP_InitCoroutine = 11"
definition OP_Yield :: nat where [opcode_values]: "OP_Yield = 12"
definition OP_MustBeInt :: nat where [opcode_values]: "OP_MustBeInt = 13"
definition OP_Jump :: nat where [opcode_values]: "OP_Jump = 14"
definition OP_Once :: nat where [opcode_values]: "OP_Once = 15"
definition OP_If :: nat where [opcode_values]: "OP_If = 16"
definition OP_IfNot :: nat where [opcode_values]: "OP_IfNot = 17"
definition OP_IsType :: nat where [opcode_values]: "OP_IsType = 18"
definition OP_Not :: nat where [opcode_values]: "OP_Not = 19"
definition OP_IfNullRow :: nat where [opcode_values]: "OP_IfNullRow = 20"
definition OP_SeekLT :: nat where [opcode_values]: "OP_SeekLT = 21"
definition OP_SeekLE :: nat where [opcode_values]: "OP_SeekLE = 22"
definition OP_SeekGE :: nat where [opcode_values]: "OP_SeekGE = 23"
definition OP_SeekGT :: nat where [opcode_values]: "OP_SeekGT = 24"
definition OP_IfNotOpen :: nat where [opcode_values]: "OP_IfNotOpen = 25"
definition OP_IfNoHope :: nat where [opcode_values]: "OP_IfNoHope = 26"
definition OP_NoConflict :: nat where [opcode_values]: "OP_NoConflict = 27"
definition OP_NotFound :: nat where [opcode_values]: "OP_NotFound = 28"
definition OP_Found :: nat where [opcode_values]: "OP_Found = 29"
definition OP_SeekRowid :: nat where [opcode_values]: "OP_SeekRowid = 30"
definition OP_NotExists :: nat where [opcode_values]: "OP_NotExists = 31"
definition OP_Last :: nat where [opcode_values]: "OP_Last = 32"
definition OP_IfSizeBetween :: nat where [opcode_values]: "OP_IfSizeBetween = 33"
definition OP_SorterSort :: nat where [opcode_values]: "OP_SorterSort = 34"
definition OP_Sort :: nat where [opcode_values]: "OP_Sort = 35"
definition OP_Rewind :: nat where [opcode_values]: "OP_Rewind = 36"
definition OP_IfEmpty :: nat where [opcode_values]: "OP_IfEmpty = 37"
definition OP_SorterNext :: nat where [opcode_values]: "OP_SorterNext = 38"
definition OP_Prev :: nat where [opcode_values]: "OP_Prev = 39"
definition OP_Next :: nat where [opcode_values]: "OP_Next = 40"
definition OP_IdxLE :: nat where [opcode_values]: "OP_IdxLE = 41"
definition OP_IdxGT :: nat where [opcode_values]: "OP_IdxGT = 42"
definition OP_Or :: nat where [opcode_values]: "OP_Or = 43"
definition OP_And :: nat where [opcode_values]: "OP_And = 44"
definition OP_IdxLT :: nat where [opcode_values]: "OP_IdxLT = 45"
definition OP_IdxGE :: nat where [opcode_values]: "OP_IdxGE = 46"
definition OP_RowSetRead :: nat where [opcode_values]: "OP_RowSetRead = 47"
definition OP_RowSetTest :: nat where [opcode_values]: "OP_RowSetTest = 48"
definition OP_Program :: nat where [opcode_values]: "OP_Program = 49"
definition OP_FkIfZero :: nat where [opcode_values]: "OP_FkIfZero = 50"
definition OP_IsNull :: nat where [opcode_values]: "OP_IsNull = 51"
definition OP_NotNull :: nat where [opcode_values]: "OP_NotNull = 52"
definition OP_Ne :: nat where [opcode_values]: "OP_Ne = 53"
definition OP_Eq :: nat where [opcode_values]: "OP_Eq = 54"
definition OP_Gt :: nat where [opcode_values]: "OP_Gt = 55"
definition OP_Le :: nat where [opcode_values]: "OP_Le = 56"
definition OP_Lt :: nat where [opcode_values]: "OP_Lt = 57"
definition OP_Ge :: nat where [opcode_values]: "OP_Ge = 58"
definition OP_ElseEq :: nat where [opcode_values]: "OP_ElseEq = 59"
definition OP_IfPos :: nat where [opcode_values]: "OP_IfPos = 60"
definition OP_IfNotZero :: nat where [opcode_values]: "OP_IfNotZero = 61"
definition OP_DecrJumpZero :: nat where [opcode_values]: "OP_DecrJumpZero = 62"
definition OP_IncrVacuum :: nat where [opcode_values]: "OP_IncrVacuum = 63"
definition OP_VNext :: nat where [opcode_values]: "OP_VNext = 64"
definition OP_Filter :: nat where [opcode_values]: "OP_Filter = 65"
definition OP_PureFunc :: nat where [opcode_values]: "OP_PureFunc = 66"
definition OP_Function :: nat where [opcode_values]: "OP_Function = 67"
definition OP_Return :: nat where [opcode_values]: "OP_Return = 68"
definition OP_EndCoroutine :: nat where [opcode_values]: "OP_EndCoroutine = 69"
definition OP_HaltIfNull :: nat where [opcode_values]: "OP_HaltIfNull = 70"
definition OP_Halt :: nat where [opcode_values]: "OP_Halt = 71"
definition OP_Integer :: nat where [opcode_values]: "OP_Integer = 72"
definition OP_Int64 :: nat where [opcode_values]: "OP_Int64 = 73"
definition OP_String :: nat where [opcode_values]: "OP_String = 74"
definition OP_BeginSubrtn :: nat where [opcode_values]: "OP_BeginSubrtn = 75"
definition OP_Null :: nat where [opcode_values]: "OP_Null = 76"
definition OP_SoftNull :: nat where [opcode_values]: "OP_SoftNull = 77"
definition OP_Blob :: nat where [opcode_values]: "OP_Blob = 78"
definition OP_Variable :: nat where [opcode_values]: "OP_Variable = 79"
definition OP_Move :: nat where [opcode_values]: "OP_Move = 80"
definition OP_Copy :: nat where [opcode_values]: "OP_Copy = 81"
definition OP_SCopy :: nat where [opcode_values]: "OP_SCopy = 82"
definition OP_IntCopy :: nat where [opcode_values]: "OP_IntCopy = 83"
definition OP_FkCheck :: nat where [opcode_values]: "OP_FkCheck = 84"
definition OP_ResultRow :: nat where [opcode_values]: "OP_ResultRow = 85"
definition OP_CollSeq :: nat where [opcode_values]: "OP_CollSeq = 86"
definition OP_AddImm :: nat where [opcode_values]: "OP_AddImm = 87"
definition OP_RealAffinity :: nat where [opcode_values]: "OP_RealAffinity = 88"
definition OP_Cast :: nat where [opcode_values]: "OP_Cast = 89"
definition OP_Permutation :: nat where [opcode_values]: "OP_Permutation = 90"
definition OP_Compare :: nat where [opcode_values]: "OP_Compare = 91"
definition OP_IsTrue :: nat where [opcode_values]: "OP_IsTrue = 92"
definition OP_ZeroOrNull :: nat where [opcode_values]: "OP_ZeroOrNull = 93"
definition OP_Offset :: nat where [opcode_values]: "OP_Offset = 94"
definition OP_Column :: nat where [opcode_values]: "OP_Column = 95"
definition OP_TypeCheck :: nat where [opcode_values]: "OP_TypeCheck = 96"
definition OP_Affinity :: nat where [opcode_values]: "OP_Affinity = 97"
definition OP_MakeRecord :: nat where [opcode_values]: "OP_MakeRecord = 98"
definition OP_Count :: nat where [opcode_values]: "OP_Count = 99"
definition OP_ReadCookie :: nat where [opcode_values]: "OP_ReadCookie = 100"
definition OP_SetCookie :: nat where [opcode_values]: "OP_SetCookie = 101"
definition OP_ReopenIdx :: nat where [opcode_values]: "OP_ReopenIdx = 102"
definition OP_BitAnd :: nat where [opcode_values]: "OP_BitAnd = 103"
definition OP_BitOr :: nat where [opcode_values]: "OP_BitOr = 104"
definition OP_ShiftLeft :: nat where [opcode_values]: "OP_ShiftLeft = 105"
definition OP_ShiftRight :: nat where [opcode_values]: "OP_ShiftRight = 106"
definition OP_Add :: nat where [opcode_values]: "OP_Add = 107"
definition OP_Subtract :: nat where [opcode_values]: "OP_Subtract = 108"
definition OP_Multiply :: nat where [opcode_values]: "OP_Multiply = 109"
definition OP_Divide :: nat where [opcode_values]: "OP_Divide = 110"
definition OP_Remainder :: nat where [opcode_values]: "OP_Remainder = 111"
definition OP_Concat :: nat where [opcode_values]: "OP_Concat = 112"
definition OP_OpenRead :: nat where [opcode_values]: "OP_OpenRead = 113"
definition OP_OpenWrite :: nat where [opcode_values]: "OP_OpenWrite = 114"
definition OP_BitNot :: nat where [opcode_values]: "OP_BitNot = 115"
definition OP_OpenDup :: nat where [opcode_values]: "OP_OpenDup = 116"
definition OP_OpenAutoindex :: nat where [opcode_values]: "OP_OpenAutoindex = 117"
definition OP_String8 :: nat where [opcode_values]: "OP_String8 = 118"
definition OP_OpenEphemeral :: nat where [opcode_values]: "OP_OpenEphemeral = 119"
definition OP_SorterOpen :: nat where [opcode_values]: "OP_SorterOpen = 120"
definition OP_SequenceTest :: nat where [opcode_values]: "OP_SequenceTest = 121"
definition OP_OpenPseudo :: nat where [opcode_values]: "OP_OpenPseudo = 122"
definition OP_Close :: nat where [opcode_values]: "OP_Close = 123"
definition OP_ColumnsUsed :: nat where [opcode_values]: "OP_ColumnsUsed = 124"
definition OP_SeekScan :: nat where [opcode_values]: "OP_SeekScan = 125"
definition OP_SeekHit :: nat where [opcode_values]: "OP_SeekHit = 126"
definition OP_Sequence :: nat where [opcode_values]: "OP_Sequence = 127"
definition OP_NewRowid :: nat where [opcode_values]: "OP_NewRowid = 128"
definition OP_Insert :: nat where [opcode_values]: "OP_Insert = 129"
definition OP_RowCell :: nat where [opcode_values]: "OP_RowCell = 130"
definition OP_Delete :: nat where [opcode_values]: "OP_Delete = 131"
definition OP_ResetCount :: nat where [opcode_values]: "OP_ResetCount = 132"
definition OP_SorterCompare :: nat where [opcode_values]: "OP_SorterCompare = 133"
definition OP_SorterData :: nat where [opcode_values]: "OP_SorterData = 134"
definition OP_RowData :: nat where [opcode_values]: "OP_RowData = 135"
definition OP_Rowid :: nat where [opcode_values]: "OP_Rowid = 136"
definition OP_NullRow :: nat where [opcode_values]: "OP_NullRow = 137"
definition OP_SeekEnd :: nat where [opcode_values]: "OP_SeekEnd = 138"
definition OP_IdxInsert :: nat where [opcode_values]: "OP_IdxInsert = 139"
definition OP_SorterInsert :: nat where [opcode_values]: "OP_SorterInsert = 140"
definition OP_IdxDelete :: nat where [opcode_values]: "OP_IdxDelete = 141"
definition OP_DeferredSeek :: nat where [opcode_values]: "OP_DeferredSeek = 142"
definition OP_IdxRowid :: nat where [opcode_values]: "OP_IdxRowid = 143"
definition OP_FinishSeek :: nat where [opcode_values]: "OP_FinishSeek = 144"
definition OP_Destroy :: nat where [opcode_values]: "OP_Destroy = 145"
definition OP_Clear :: nat where [opcode_values]: "OP_Clear = 146"
definition OP_ResetSorter :: nat where [opcode_values]: "OP_ResetSorter = 147"
definition OP_CreateBtree :: nat where [opcode_values]: "OP_CreateBtree = 148"
definition OP_SqlExec :: nat where [opcode_values]: "OP_SqlExec = 149"
definition OP_ParseSchema :: nat where [opcode_values]: "OP_ParseSchema = 150"
definition OP_LoadAnalysis :: nat where [opcode_values]: "OP_LoadAnalysis = 151"
definition OP_DropTable :: nat where [opcode_values]: "OP_DropTable = 152"
definition OP_DropIndex :: nat where [opcode_values]: "OP_DropIndex = 153"
definition OP_Real :: nat where [opcode_values]: "OP_Real = 154"
definition OP_DropTrigger :: nat where [opcode_values]: "OP_DropTrigger = 155"
definition OP_IntegrityCk :: nat where [opcode_values]: "OP_IntegrityCk = 156"
definition OP_RowSetAdd :: nat where [opcode_values]: "OP_RowSetAdd = 157"
definition OP_Param :: nat where [opcode_values]: "OP_Param = 158"
definition OP_FkCounter :: nat where [opcode_values]: "OP_FkCounter = 159"
definition OP_MemMax :: nat where [opcode_values]: "OP_MemMax = 160"
definition OP_OffsetLimit :: nat where [opcode_values]: "OP_OffsetLimit = 161"
definition OP_AggInverse :: nat where [opcode_values]: "OP_AggInverse = 162"
definition OP_AggStep :: nat where [opcode_values]: "OP_AggStep = 163"
definition OP_AggStep1 :: nat where [opcode_values]: "OP_AggStep1 = 164"
definition OP_AggValue :: nat where [opcode_values]: "OP_AggValue = 165"
definition OP_AggFinal :: nat where [opcode_values]: "OP_AggFinal = 166"
definition OP_Expire :: nat where [opcode_values]: "OP_Expire = 167"
definition OP_CursorLock :: nat where [opcode_values]: "OP_CursorLock = 168"
definition OP_CursorUnlock :: nat where [opcode_values]: "OP_CursorUnlock = 169"
definition OP_TableLock :: nat where [opcode_values]: "OP_TableLock = 170"
definition OP_VBegin :: nat where [opcode_values]: "OP_VBegin = 171"
definition OP_VCreate :: nat where [opcode_values]: "OP_VCreate = 172"
definition OP_VDestroy :: nat where [opcode_values]: "OP_VDestroy = 173"
definition OP_VOpen :: nat where [opcode_values]: "OP_VOpen = 174"
definition OP_VCheck :: nat where [opcode_values]: "OP_VCheck = 175"
definition OP_VInitIn :: nat where [opcode_values]: "OP_VInitIn = 176"
definition OP_VColumn :: nat where [opcode_values]: "OP_VColumn = 177"
definition OP_VRename :: nat where [opcode_values]: "OP_VRename = 178"
definition OP_Pagecount :: nat where [opcode_values]: "OP_Pagecount = 179"
definition OP_MaxPgcnt :: nat where [opcode_values]: "OP_MaxPgcnt = 180"
definition OP_ClrSubtype :: nat where [opcode_values]: "OP_ClrSubtype = 181"
definition OP_GetSubtype :: nat where [opcode_values]: "OP_GetSubtype = 182"
definition OP_SetSubtype :: nat where [opcode_values]: "OP_SetSubtype = 183"
definition OP_FilterAdd :: nat where [opcode_values]: "OP_FilterAdd = 184"
definition OP_Trace :: nat where [opcode_values]: "OP_Trace = 185"
definition OP_CursorHint :: nat where [opcode_values]: "OP_CursorHint = 186"
definition OP_ReleaseReg :: nat where [opcode_values]: "OP_ReleaseReg = 187"
definition OP_Noop :: nat where [opcode_values]: "OP_Noop = 188"
definition OP_Explain :: nat where [opcode_values]: "OP_Explain = 189"
definition OP_Abortable :: nat where [opcode_values]: "OP_Abortable = 190"

text \<open>
  The comment that follows a \<open>#define\<close> lists the properties of the opcode
  (\<open>jump\<close>, \<open>jump0\<close>, \<open>same as TK_x\<close>), separated by commas, and then, after the keyword
  \<open>synopsis:\<close>, a free-text summary. The record \<open>opcode_def\<close> keeps the name of the
  macro, its value and the comma-separated properties; the synopsis text is
  documentation only and is left out. \<open>opcode_table\<close> lists the definitions in the
  order of the header.
\<close>

record opcode_def =
  macro_name :: string
  macro_value :: nat
  properties :: "string list"

definition opcode_table :: "opcode_def list" where
  "opcode_table = [
    \<lparr>macro_name = ''OP_Savepoint'', macro_value = OP_Savepoint, properties = []\<rparr>,
    \<lparr>macro_name = ''OP_AutoCommit'', macro_value = OP_AutoCommit, properties = []\<rparr>,
    \<lparr>macro_name = ''OP_Transaction'', macro_value = OP_Transaction, properties = []\<rparr>,
    \<lparr>macro_name = ''OP_Checkpoint'', macro_value = OP_Checkpoint, properties = []\<rparr>,
    \<lparr>macro_name = ''OP_JournalMode'', macro_value = OP_JournalMode, properties = []\<rparr>,
    \<lparr>macro_name = ''OP_Vacuum'', macro_value = OP_Vacuum, properties = []\<rparr>,
    \<lparr>macro_name = ''OP_VFilter'', macro_value = OP_VFilter, properties = [''jump'']\<rparr>,
    \<lparr>macro_name = ''OP_VUpdate'', macro_value = OP_VUpdate, properties = []\<rparr>,
    \<lparr>macro_name = ''OP_Init'', macro_value = OP_Init, properties = [''jump0'']\<rparr>,
    \<lparr>macro_name = ''OP_Goto'', macro_value = OP_Goto, properties = [''jump'']\<rparr>,
    \<lparr>macro_name = ''OP_Gosub'', macro_value = OP_Gosub, properties = [''jump'']\<rparr>,
    \<lparr>macro_name = ''OP_InitCoroutine'', macro_value = OP_InitCoroutine, properties = [''jump0'']\<rparr>,
    \<lparr>macro_name = ''OP_Yield'', macro_value = OP_Yield, properties = [''jump0'']\<rparr>,
    \<lparr>macro_name = ''OP_MustBeInt'', macro_value = OP_MustBeInt, properties = [''jump0'']\<rparr>,
    \<lparr>macro_name = ''OP_Jump'', macro_value = OP_Jump, properties = [''jump'']\<rparr>,
    \<lparr>macro_name = ''OP_Once'', macro_value = OP_Once, properties = [''jump'']\<rparr>,
    \<lparr>macro_name = ''OP_If'', macro_value = OP_If, properties = [''jump'']\<rparr>,
    \<lparr>macro_name = ''OP_IfNot'', macro_value = OP_IfNot, properties = [''jump'']\<rparr>,
    \<lparr>macro_name = ''OP_IsType'', macro_value = OP_IsType, properties = [''jump'']\<rparr>,
    \<lparr>macro_name = ''OP_Not'', macro_value = OP_Not, properties = [''same as TK_NOT'']\<rparr>,
    \<lparr>macro_name = ''OP_IfNullRow'', macro_value = OP_IfNullRow, properties = [''jump'']\<rparr>,
    \<lparr>macro_name = ''OP_SeekLT'', macro_value = OP_SeekLT, properties = [''jump0'']\<rparr>,
    \<lparr>macro_name = ''OP_SeekLE'', macro_value = OP_SeekLE, properties = [''jump0'']\<rparr>,
    \<lparr>macro_name = ''OP_SeekGE'', macro_value = OP_SeekGE, properties = [''jump0'']\<rparr>,
    \<lparr>macro_name = ''OP_SeekGT'', macro_value = OP_SeekGT, properties = [''jump0'']\<rparr>,
    \<lparr>macro_name = ''OP_IfNotOpen'', macro_value = OP_IfNotOpen, properties = [''jump'']\<rparr>,
    \<lparr>macro_name = ''OP_IfNoHope'', macro_value = OP_IfNoHope, properties = [''jump'']\<rparr>,
    \<lparr>macro_name = ''OP_NoConflict'', macro_value = OP_NoConflict, properties = [''jump'']\<rparr>,
    \<lparr>macro_name = ''OP_NotFound'', macro_value = OP_NotFound, properties = [''jump'']\<rparr>,
    \<lparr>macro_name = ''OP_Found'', macro_value = OP_Found, properties = [''jump'']\<rparr>,
    \<lparr>macro_name = ''OP_SeekRowid'', macro_value = OP_SeekRowid, properties = [''jump0'']\<rparr>,
    \<lparr>macro_name = ''OP_NotExists'', macro_value = OP_NotExists, properties = [''jump'']\<rparr>,
    \<lparr>macro_name = ''OP_Last'', macro_value = OP_Last, properties = [''jump0'']\<rparr>,
    \<lparr>macro_name = ''OP_IfSizeBetween'', macro_value = OP_IfSizeBetween, properties = [''jump'']\<rparr>,
    \<lparr>macro_name = ''OP_SorterSort'', macro_value = OP_SorterSort, properties = [''jump'']\<rparr>,
    \<lparr>macro_name = ''OP_Sort'', macro_value = OP_Sort, properties = [''jump'']\<rparr>,
    \<lparr>macro_name = ''OP_Rewind'', macro_value = OP_Rewind, properties = [''jump0'']\<rparr>,
    \<lparr>macro_name = ''OP_IfEmpty'', macro_value = OP_IfEmpty, properties = [''jump'']\<rparr>,
    \<lparr>macro_name = ''OP_SorterNext'', macro_value = OP_SorterNext, properties = [''jump'']\<rparr>,
    \<lparr>macro_name = ''OP_Prev'', macro_value = OP_Prev, properties = [''jump'']\<rparr>,
    \<lparr>macro_name = ''OP_Next'', macro_value = OP_Next, properties = [''jump'']\<rparr>,
    \<lparr>macro_name = ''OP_IdxLE'', macro_value = OP_IdxLE, properties = [''jump'']\<rparr>,
    \<lparr>macro_name = ''OP_IdxGT'', macro_value = OP_IdxGT, properties = [''jump'']\<rparr>,
    \<lparr>macro_name = ''OP_Or'', macro_value = OP_Or, properties = [''same as TK_OR'']\<rparr>,
    \<lparr>macro_name = ''OP_And'', macro_value = OP_And, properties = [''same as TK_AND'']\<rparr>,
    \<lparr>macro_name = ''OP_IdxLT'', macro_value = OP_IdxLT, properties = [''jump'']\<rparr>,
    \<lparr>macro_name = ''OP_IdxGE'', macro_value = OP_IdxGE, properties = [''jump'']\<rparr>,
    \<lparr>macro_name = ''OP_RowSetRead'', macro_value = OP_RowSetRead, properties = [''jump'']\<rparr>,
    \<lparr>macro_name = ''OP_RowSetTest'', macro_value = OP_RowSetTest, properties = [''jump'']\<rparr>,
    \<lparr>macro_name = ''OP_Program'', macro_value = OP_Program, properties = [''jump0'']\<rparr>,
    \<lparr>macro_name = ''OP_FkIfZero'', macro_value = OP_FkIfZero, properties = [''jump'']\<rparr>,
    \<lparr>macro_name = ''OP_IsNull'', macro_value = OP_IsNull, properties = [''jump'', ''same as TK_ISNULL'']\<rparr>,
    \<lparr>macro_name = ''OP_NotNull'', macro_value = OP_NotNull, properties = [''jump'', ''same as TK_NOTNULL'']\<rparr>,
    \<lparr>macro_name = ''OP_Ne'', macro_value = OP_Ne, properties = [''jump'', ''same as TK_NE'']\<rparr>,
    \<lparr>macro_name = ''OP_Eq'', macro_value = OP_Eq, properties = [''jump'', ''same as TK_EQ'']\<rparr>,
    \<lparr>macro_name = ''OP_Gt'', macro_value = OP_Gt, properties = [''jump'', ''same as TK_GT'']\<rparr>,
    \<lparr>macro_name = ''OP_Le'', macro_value = OP_Le, properties = [''jump'', ''same as TK_LE'']\<rparr>,
    \<lparr>macro_name = ''OP_Lt'', macro_value = OP_Lt, properties = [''jump'', ''same as TK_LT'']\<rparr>,
    \<lparr>macro_name = ''OP_Ge'', macro_value = OP_Ge, properties = [''jump'', ''same as TK_GE'']\<rparr>,
    \<lparr>macro_name = ''OP_ElseEq'', macro_value = OP_ElseEq, properties = [''jump'', ''same as TK_ESCAPE'']\<rparr>,
    \<lparr>macro_name = ''OP_IfPos'', macro_value = OP_IfPos, properties = [''jump'']\<rparr>,
    \<lparr>macro_name = ''OP_IfNotZero'', macro_value = OP_IfNotZero, properties = [''jump'']\<rparr>,
    \<lparr>macro_name = ''OP_DecrJumpZero'', macro_value = OP_DecrJumpZero, properties = [''jump'']\<rparr>,
    \<lparr>macro_name = ''OP_IncrVacuum'', macro_value = OP_IncrVacuum, properties = [''jump'']\<rparr>,
    \<lparr>macro_name = ''OP_VNext'', macro_value = OP_VNext, properties = [''jump'']\<rparr>,
    \<lparr>macro_name = ''OP_Filter'', macro_value = OP_Filter, properties = [''jump'']\<rparr>,
    \<lparr>macro_name = ''OP_PureFunc'', macro_value = OP_PureFunc, properties = []\<rparr>,
    \<lparr>macro_name = ''OP_Function'', macro_value = OP_Function, properties = []\<rparr>,
    \<lparr>macro_name = ''OP_Return'', macro_value = OP_Return, properties = []\<rparr>,
    \<lparr>macro_name = ''OP_EndCoroutine'', macro_value = OP_EndCoroutine, properties = []\<rparr>,
    \<lparr>macro_name = ''OP_HaltIfNull'', macro_value = OP_HaltIfNull, properties = []\<rparr>,
    \<lparr>macro_name = ''OP_Halt'', macro_value = OP_Halt, properties = []\<rparr>,
    \<lparr>macro_name = ''OP_Integer'', macro_value = OP_Integer, properties = []\<rparr>,
    \<lparr>macro_name = ''OP_Int64'', macro_value = OP_Int64, properties = []\<rparr>,
    \<lparr>macro_name = ''OP_String'', macro_value = OP_String, properties = []\<rparr>,
    \<lparr>macro_name = ''OP_BeginSubrtn'', macro_value = OP_BeginSubrtn, properties = []\<rparr>,
    \<lparr>macro_name = ''OP_Null'', macro_value = OP_Null, properties = []\<rparr>,
    \<lparr>macro_name = ''OP_SoftNull'', macro_value = OP_SoftNull, properties = []\<rparr>,
    \<lparr>macro_name = ''OP_Blob'', macro_value = OP_Blob, properties = []\<rparr>,
    \<lparr>macro_name = ''OP_Variable'', macro_value = OP_Variable, properties = []\<rparr>,
    \<lparr>macro_name = ''OP_Move'', macro_value = OP_Move, properties = []\<rparr>,
    \<lparr>macro_name = ''OP_Copy'', macro_value = OP_Copy, properties = []\<rparr>,
    \<lparr>macro_name = ''OP_SCopy'', macro_value = OP_SCopy, properties = []\<rparr>,
    \<lparr>macro_name = ''OP_IntCopy'', macro_value = OP_IntCopy, properties = []\<rparr>,
    \<lparr>macro_name = ''OP_FkCheck'', macro_value = OP_FkCheck, properties = []\<rparr>,
    \<lparr>macro_name = ''OP_ResultRow'', macro_value = OP_ResultRow, properties = []\<rparr>,
    \<lparr>macro_name = ''OP_CollSeq'', macro_value = OP_CollSeq, properties = []\<rparr>,
    \<lparr>macro_name = ''OP_AddImm'', macro_value = OP_AddImm, properties = []\<rparr>,
    \<lparr>macro_name = ''OP_RealAffinity'', macro_value = OP_RealAffinity, properties = []\<rparr>,
    \<lparr>macro_name = ''OP_Cast'', macro_value = OP_Cast, properties = []\<rparr>,
    \<lparr>macro_name = ''OP_Permutation'', macro_value = OP_Permutation, properties = []\<rparr>,
    \<lparr>macro_name = ''OP_Compare'', macro_value = OP_Compare, properties = []\<rparr>,
    \<lparr>macro_name = ''OP_IsTrue'', macro_value = OP_IsTrue, properties = []\<rparr>,
    \<lparr>macro_name = ''OP_ZeroOrNull'', macro_value = OP_ZeroOrNull, properties = []\<rparr>,
    \<lparr>macro_name = ''OP_Offset'', macro_value = OP_Offset, properties = []\<rparr>,
    \<lparr>macro_name = ''OP_Column'', macro_value = OP_Column, properties = []\<rparr>,
    \<lparr>macro_name = ''OP_TypeCheck'', macro_value = OP_TypeCheck, properties = []\<rparr>,
    \<lparr>macro_name = ''OP_Affinity'', macro_value = OP_Affinity, properties = []\<rparr>,
    \<lparr>macro_name = ''OP_MakeRecord'', macro_value = OP_MakeRecord, properties = []\<rparr>,
    \<lparr>macro_name = ''OP_Count'', macro_value = OP_Count, properties = []\<rparr>,
    \<lparr>macro_name = ''OP_ReadCookie'', macro_value = OP_ReadCookie, properties = []\<rparr>,
    \<lparr>macro_name = ''OP_SetCookie'', macro_value = OP_SetCookie, properties = []\<rparr>,
    \<lparr>macro_name = ''OP_ReopenIdx'', macro_value = OP_ReopenIdx, properties = []\<rparr>,
    \<lparr>macro_name = ''OP_BitAnd'', macro_value = OP_BitAnd, properties = [''same as TK_BITAND'']\<rparr>,
    \<lparr>macro_name = ''OP_BitOr'', macro_value = OP_BitOr, properties = [''same as TK_BITOR'']\<rparr>,
    \<lparr>macro_name = ''OP_ShiftLeft'', macro_value = OP_ShiftLeft, properties = [''same as TK_LSHIFT'']\<rparr>,
    \<lparr>macro_name = ''OP_ShiftRight'', macro_value = OP_ShiftRight, properties = [''same as TK_RSHIFT'']\<rparr>,
    \<lparr>macro_name = ''OP_Add'', macro_value = OP_Add, properties = [''same as TK_PLUS'']\<rparr>,
    \<lparr>macro_name = ''OP_Subtract'', macro_value = OP_Subtract, properties = [''same as TK_MINUS'']\<rparr>,
    \<lparr>macro_name = ''OP_Multiply'', macro_value = OP_Multiply, properties = [''same as TK_STAR'']\<rparr>,
    \<lparr>macro_name = ''OP_Divide'', macro_value = OP_Divide, properties = [''same as TK_SLASH'']\<rparr>,
    \<lparr>macro_name = ''OP_Remainder'', macro_value = OP_Remainder, properties = [''same as TK_REM'']\<rparr>,
    \<lparr>macro_name = ''OP_Concat'', macro_value = OP_Concat, properties = [''same as TK_CONCAT'']\<rparr>,
    \<lparr>macro_name = ''OP_OpenRead'', macro_value = OP_OpenRead, properties = []\<rparr>,
    \<lparr>macro_name = ''OP_OpenWrite'', macro_value = OP_OpenWrite, properties = []\<rparr>,
    \<lparr>macro_name = ''OP_BitNot'', macro_value = OP_BitNot, properties = [''same as TK_BITNOT'']\<rparr>,
    \<lparr>macro_name = ''OP_OpenDup'', macro_value = OP_OpenDup, properties = []\<rparr>,
    \<lparr>macro_name = ''OP_OpenAutoindex'', macro_value = OP_OpenAutoindex, properties = []\<rparr>,
    \<lparr>macro_name = ''OP_String8'', macro_value = OP_String8, properties = [''same as TK_STRING'']\<rparr>,
    \<lparr>macro_name = ''OP_OpenEphemeral'', macro_value = OP_OpenEphemeral, properties = []\<rparr>,
    \<lparr>macro_name = ''OP_SorterOpen'', macro_value = OP_SorterOpen, properties = []\<rparr>,
    \<lparr>macro_name = ''OP_SequenceTest'', macro_value = OP_SequenceTest, properties = []\<rparr>,
    \<lparr>macro_name = ''OP_OpenPseudo'', macro_value = OP_OpenPseudo, properties = []\<rparr>,
    \<lparr>macro_name = ''OP_Close'', macro_value = OP_Close, properties = []\<rparr>,
    \<lparr>macro_name = ''OP_ColumnsUsed'', macro_value = OP_ColumnsUsed, properties = []\<rparr>,
    \<lparr>macro_name = ''OP_SeekScan'', macro_value = OP_SeekScan, properties = []\<rparr>,
    \<lparr>macro_name = ''OP_SeekHit'', macro_value = OP_SeekHit, properties = []\<rparr>,
    \<lparr>macro_name = ''OP_Sequence'', macro_value = OP_Sequence, properties = []\<rparr>,
    \<lparr>macro_name = ''OP_NewRowid'', macro_value = OP_NewRowid, properties = []\<rparr>,
    \<lparr>macro_name = ''OP_Insert'', macro_value = OP_Insert, properties = []\<rparr>,
    \<lparr>macro_name = ''OP_RowCell'', macro_value = OP_RowCell, properties = []\<rparr>,
    \<lparr>macro_name = ''OP_Delete'', macro_value = OP_Delete, properties = []\<rparr>,
    \<lparr>macro_name = ''OP_ResetCount'', macro_value = OP_ResetCount, properties = []\<rparr>,
    \<lparr>macro_name = ''OP_SorterCompare'', macro_value = OP_SorterCompare, properties = []\<rparr>,
    \<lparr>macro_name = ''OP_SorterData'', macro_value = OP_SorterData, properties = []\<rparr>,
    \<lparr>macro_name = ''OP_RowData'', macro_value = OP_RowData, properties = []\<rparr>,
    \<lparr>macro_name = ''OP_Rowid'', macro_value = OP_Rowid, properties = []\<rparr>,
    \<lparr>macro_name = ''OP_NullRow'', macro_value = OP_NullRow, properties = []\<rparr>,
    \<lparr>macro_name = ''OP_SeekEnd'', macro_value = OP_SeekEnd, properties = []\<rparr>,
    \<lparr>macro_name = ''OP_IdxInsert'', macro_value = OP_IdxInsert, properties = []\<rparr>,
    \<lparr>macro_name = ''OP_SorterInsert'', macro_value = OP_SorterInsert, properties = []\<rparr>,
    \<lparr>macro_name = ''OP_IdxDelete'', macro_value = OP_IdxDelete, properties = []\<rparr>,
    \<lparr>macro_name = ''OP_DeferredSeek'', macro_value = OP_DeferredSeek, properties = []\<rparr>,
    \<lparr>macro_name = ''OP_IdxRowid'', macro_value = OP_IdxRowid, properties = []\<rparr>,
    \<lparr>macro_name = ''OP_FinishSeek'', macro_value = OP_FinishSeek, properties = []\<rparr>,
    \<lparr>macro_name = ''OP_Destroy'', macro_value = OP_Destroy, properties = []\<rparr>,
    \<lparr>macro_name = ''OP_Clear'', macro_value = OP_Clear, properties = []\<rparr>,
    \<lparr>macro_name = ''OP_ResetSorter'', macro_value = OP_ResetSorter, properties = []\<rparr>,
    \<lparr>macro_name = ''OP_CreateBtree'', macro_value = OP_CreateBtree, properties = []\<rparr>,
    \<lparr>macro_name = ''OP_SqlExec'', macro_value = OP_SqlExec, properties = []\<rparr>,
    \<lparr>macro_name = ''OP_ParseSchema'', macro_value = OP_ParseSchema, properties = []\<rparr>,
    \<lparr>macro_name = ''OP_LoadAnalysis'', macro_value = OP_LoadAnalysis, properties = []\<rparr>,
    \<lparr>macro_name = ''OP_DropTable'', macro_value = OP_DropTable, properties = []\<rparr>,
    \<lparr>macro_name = ''OP_DropIndex'', macro_value = OP_DropIndex, properties = []\<rparr>,
    \<lparr>macro_name = ''OP_Real'', macro_value = OP_Real, properties = [''same as TK_FLOAT'']\<rparr>,
    \<lparr>macro_name = ''OP_DropTrigger'', macro_value = OP_DropTrigger, properties = []\<rparr>,
    \<lparr>macro_name = ''OP_IntegrityCk'', macro_value = OP_IntegrityCk, properties = []\<rparr>,
    \<lparr>macro_name = ''OP_RowSetAdd'', macro_value = OP_RowSetAdd, properties = []\<rparr>,
    \<lparr>macro_name = ''OP_Param'', macro_value = OP_Param, properties = []\<rparr>,
    \<lparr>macro_name = ''OP_FkCounter'', macro_value = OP_FkCounter, properties = []\<rparr>,
    \<lparr>macro_name = ''OP_MemMax'', macro_value = OP_MemMax, properties = []\<rparr>,
    \<lparr>macro_name = ''OP_OffsetLimit'', macro_value = OP_OffsetLimit, properties = []\<rparr>,
    \<lparr>macro_name = ''OP_AggInverse'', macro_value = OP_AggInverse, properties = []\<rparr>,
    \<lparr>macro_name = ''OP_AggStep'', macro_value = OP_AggStep, properties = []\<rparr>,
    \<lparr>macro_name = ''OP_AggStep1'', macro_value = OP_AggStep1, properties = []\<rparr>,
    \<lparr>macro_name = ''OP_AggValue'', macro_value = OP_AggValue, properties = []\<rparr>,
    \<lparr>macro_name = ''OP_AggFinal'', macro_value = OP_AggFinal, properties = []\<rparr>,
    \<lparr>macro_name = ''OP_Expire'', macro_value = OP_Expire, properties = []\<rparr>,
    \<lparr>macro_name = ''OP_CursorLock'', macro_value = OP_CursorLock, properties = []\<rparr>,
    \<lparr>macro_name = ''OP_CursorUnlock'', macro_value = OP_CursorUnlock, properties = []\<rparr>,
    \<lparr>macro_name = ''OP_TableLock'', macro_value = OP_TableLock, properties = []\<rparr>,
    \<lparr>macro_name = ''OP_VBegin'', macro_value = OP_VBegin, properties = []\<rparr>,
    \<lparr>macro_name = ''OP_VCreate'', macro_value = OP_VCreate, properties = []\<rparr>,
    \<lparr>macro_name = ''OP_VDestroy'', macro_value = OP_VDestroy, properties = []\<rparr>,
    \<lparr>macro_name = ''OP_VOpen'', macro_value = OP_VOpen, properties = []\<rparr>,
    \<lparr>macro_name = ''OP_VCheck'', macro_value = OP_VCheck, properties = []\<rparr>,
    \<lparr>macro_name = ''OP_VInitIn'', macro_value = OP_VInitIn, properties = []\<rparr>,
    \<lparr>macro_name = ''OP_VColumn'', macro_value = OP_VColumn, properties = []\<rparr>,
    \<lparr>macro_name = ''OP_VRename'', macro_value = OP_VRename, properties = []\<rparr>,
    \<lparr>macro_name = ''OP_Pagecount'', macro_value = OP_Pagecount, properties = []\<rparr>,
    \<lparr>macro_name = ''OP_MaxPgcnt'', macro_value = OP_MaxPgcnt, properties = []\<rparr>,
    \<lparr>macro_name = ''OP_ClrSubtype'', macro_value = OP_ClrSubtype, properties = []\<rparr>,
    \<lparr>macro_name = ''OP_GetSubtype'', macro_value = OP_GetSubtype, properties = []\<rparr>,
    \<lparr>macro_name = ''OP_SetSubtype'', macro_value = OP_SetSubtype, properties = []\<rparr>,
    \<lparr>macro_name = ''OP_FilterAdd'', macro_value = OP_FilterAdd, properties = []\<rparr>,
    \<lparr>macro_name = ''OP_Trace'', macro_value = OP_Trace, properties = []\<rparr>,
    \<lparr>macro_name = ''OP_CursorHint'', macro_value = OP_CursorHint, properties = []\<rparr>,
    \<lparr>macro_name = ''OP_ReleaseReg'', macro_value = OP_ReleaseReg, properties = []\<rparr>,
    \<lparr>macro_name = ''OP_Noop'', macro_value = OP_Noop, properties = []\<rparr>,
    \<lparr>macro_name = ''OP_Explain'', macro_value = OP_Explain, properties = []\<rparr>,
    \<lparr>macro_name = ''OP_Abortable'', macro_value = OP_Abortable, properties = []\<rparr>
  ]"

subsection \<open>Property bits\<close>

text \<open>
  The properties named in the comments are encoded into one byte per opcode.
\<close>

type_synonym u8 = "8 word"

definition OPFLG_JUMP :: u8 where "OPFLG_JUMP = 0x01"
definition OPFLG_IN1 :: u8 where "OPFLG_IN1 = 0x02"
definition OPFLG_IN2 :: u8 where "OPFLG_IN2 = 0x04"
definition OPFLG_IN3 :: u8 where "OPFLG_IN3 = 0x08"
definition OPFLG_OUT2 :: u8 where "OPFLG_OUT2 = 0x10"
definition OPFLG_OUT3 :: u8 where "OPFLG_OUT3 = 0x20"
definition OPFLG_NCYCLE :: u8 where "OPFLG_NCYCLE = 0x40"
definition OPFLG_JUMP0 :: u8 where "OPFLG_JUMP0 = 0x80"

lemmas OPFLG_defs =
  OPFLG_JUMP_def OPFLG_IN1_def OPFLG_IN2_def OPFLG_IN3_def
  OPFLG_OUT2_def OPFLG_OUT3_def OPFLG_NCYCLE_def OPFLG_JUMP0_def

definition OPFLG_INITIALIZER :: "u8 list" where
  "OPFLG_INITIALIZER = [
    0x00, 0x00, 0x00, 0x00, 0x10, 0x00, 0x41, 0x00,
    0x81, 0x01, 0x01, 0x81, 0x83, 0x83, 0x01, 0x01,
    0x03, 0x03, 0x01, 0x12, 0x01, 0xc9, 0xc9, 0xc9,
    0xc9, 0x01, 0x49, 0x49, 0x49, 0x49, 0xc9, 0x49,
    0xc1, 0x01, 0x41, 0x41, 0xc1, 0x01, 0x01, 0x41,
    0x41, 0x41, 0x41, 0x26, 0x26, 0x41, 0x41, 0x23,
    0x0b, 0x81, 0x01, 0x03, 0x03, 0x0b, 0x0b, 0x0b,
    0x0b, 0x0b, 0x0b, 0x01, 0x03, 0x03, 0x03, 0x01,
    0x41, 0x01, 0x00, 0x00, 0x02, 0x02, 0x08, 0x00,
    0x10, 0x10, 0x10, 0x00, 0x10, 0x00, 0x10, 0x10,
    0x00, 0x00, 0x10, 0x10, 0x00, 0x00, 0x00, 0x02,
    0x02, 0x02, 0x00, 0x00, 0x12, 0x1e, 0x20, 0x40,
    0x00, 0x00, 0x00, 0x10, 0x10, 0x00, 0x40, 0x26,
    0x26, 0x26, 0x26, 0x26, 0x26, 0x26, 0x26, 0x26,
    0x26, 0x40, 0x00, 0x12, 0x40, 0x40, 0x10, 0x40,
    0x00, 0x00, 0x00, 0x40, 0x00, 0x40, 0x40, 0x10,
    0x10, 0x00, 0x00, 0x00, 0x00, 0x00, 0x40, 0x00,
    0x50, 0x00, 0x40, 0x04, 0x04, 0x00, 0x40, 0x50,
    0x40, 0x10, 0x00, 0x00, 0x10, 0x00, 0x00, 0x00,
    0x00, 0x00, 0x10, 0x00, 0x00, 0x06, 0x10, 0x00,
    0x04, 0x1a, 0x00, 0x00, 0x00, 0x00, 0x00, 0x00,
    0x00, 0x00, 0x00, 0x00, 0x00, 0x00, 0x40, 0x10,
    0x50, 0x40, 0x00, 0x10, 0x10, 0x02, 0x12, 0x12,
    0x00, 0x00, 0x00, 0x00, 0x00, 0x00, 0x00
  ]"

text \<open>
  The largest opcode that is a jump. The header explains that the routine resolving
  the P2 operands runs faster when it knows this value, and that the generator
  therefore groups the jump opcodes at the beginning of the list.
\<close>

definition SQLITE_MX_JUMP_OPCODE :: nat where
  "SQLITE_MX_JUMP_OPCODE = 65"

subsection \<open>Reading the table\<close>

text \<open>
  A property is tested as in C, \<open>(flags & OPFLG_x) != 0\<close>.
\<close>

definition has_flag :: "u8 \<Rightarrow> u8 \<Rightarrow> bool" where
  "has_flag flags f = (flags AND f \<noteq> 0)"

text \<open>
  The eight property bits in the order of the header, and what it means for a list of
  bit masks to be pairwise disjoint.
\<close>

definition OPFLG_roles :: "u8 list" where
  "OPFLG_roles =
    [OPFLG_JUMP, OPFLG_IN1, OPFLG_IN2, OPFLG_IN3,
     OPFLG_OUT2, OPFLG_OUT3, OPFLG_NCYCLE, OPFLG_JUMP0]"

fun disjoint_masks :: "u8 list \<Rightarrow> bool" where
  "disjoint_masks [] = True"
| "disjoint_masks (m # ms) = (list_all (\<lambda>m'. m AND m' = 0) ms \<and> disjoint_masks ms)"

text \<open>
  The operands that a property byte declares as register inputs and as register
  outputs, by operand number: \<open>in1\<close>, \<open>in2\<close>, \<open>in3\<close> stand for P1, P2, P3 and \<open>out2\<close>,
  \<open>out3\<close> for P2, P3.
\<close>

definition declared_inputs :: "u8 \<Rightarrow> nat list" where
  "declared_inputs flags =
    map fst (filter (\<lambda>(p, f). has_flag flags f)
      [(1, OPFLG_IN1), (2, OPFLG_IN2), (3, OPFLG_IN3)])"

definition declared_outputs :: "u8 \<Rightarrow> nat list" where
  "declared_outputs flags =
    map fst (filter (\<lambda>(p, f). has_flag flags f)
      [(2, OPFLG_OUT2), (3, OPFLG_OUT3)])"

text \<open>
  A property byte describes a binary register operation when it declares two register
  inputs and one register output.
\<close>

definition binary_register_op :: "u8 \<Rightarrow> bool" where
  "binary_register_op flags =
    (length (declared_inputs flags) = 2 \<and> length (declared_outputs flags) = 1)"

text \<open>
  The comparison opcodes and the arithmetic opcodes (the latter include the bitwise
  operators, the shifts and the concatenation), as the header lists them.
\<close>

definition comparison_family :: "nat list" where
  "comparison_family = [OP_Ne, OP_Eq, OP_Gt, OP_Le, OP_Lt, OP_Ge]"

definition arithmetic_family :: "nat list" where
  "arithmetic_family =
    [OP_BitAnd, OP_BitOr, OP_ShiftLeft, OP_ShiftRight, OP_Add,
     OP_Subtract, OP_Multiply, OP_Divide, OP_Remainder, OP_Concat]"



section \<open>The pass that resolves the P2 operands\<close>

text \<open>
  An instruction has an opcode, three 32-bit operands read as signed, a literal operand P4
  and a 16-bit operand P5. The type of the literal is left open. A program is a sequence
  of instructions together with a declared register count and a declared cursor count.
\<close>

record 'l instruction =
  opcode :: nat
  p1 :: "32 word"
  p2 :: "32 word"
  p3 :: "32 word"
  p4 :: "'l option"
  p5 :: "16 word"









section \<open>The interpreter loop\<close>







section \<open>Example programs\<close>






section \<open>Facts about the tables\<close>

lemma OPFLG_INITIALIZER_length: "length OPFLG_INITIALIZER = 191"
  by (simp add: OPFLG_INITIALIZER_def)

lemma OPFLG_table_all:
  assumes "list_all P OPFLG_INITIALIZER" and "v \<le> 190"
  shows "P (OPFLG_INITIALIZER ! v)"
  using assms by (simp add: list_all_length OPFLG_INITIALIZER_length)

lemma no_jump_above_mx:
  "list_all (\<lambda>f. \<not> has_flag f OPFLG_JUMP) (drop 66 OPFLG_INITIALIZER)"
  by (simp add: OPFLG_INITIALIZER_def has_flag_def OPFLG_JUMP_def)

lemma jump_le_mx:
  assumes "v \<le> 190" and "has_flag (OPFLG_INITIALIZER ! v) OPFLG_JUMP"
  shows "v \<le> SQLITE_MX_JUMP_OPCODE"
proof (rule ccontr)
  assume "\<not> v \<le> SQLITE_MX_JUMP_OPCODE"
  then have v: "66 \<le> v"
    by (simp add: SQLITE_MX_JUMP_OPCODE_def)
  then have "v - 66 < length (drop 66 OPFLG_INITIALIZER)"
    using assms(1) by (simp add: OPFLG_INITIALIZER_length)
  with no_jump_above_mx
  have "\<not> has_flag (drop 66 OPFLG_INITIALIZER ! (v - 66)) OPFLG_JUMP"
    by (simp add: list_all_length)
  moreover have "drop 66 OPFLG_INITIALIZER ! (v - 66) = OPFLG_INITIALIZER ! v"
    using v assms(1) by (simp add: OPFLG_INITIALIZER_length)
  ultimately show False
    using assms(2) by simp
qed

lemma mx_is_jump: "has_flag (OPFLG_INITIALIZER ! SQLITE_MX_JUMP_OPCODE) OPFLG_JUMP"
  by (simp add: OPFLG_INITIALIZER_def SQLITE_MX_JUMP_OPCODE_def has_flag_def OPFLG_JUMP_def)

lemma jump0_jump_all:
  "list_all (\<lambda>f. has_flag f OPFLG_JUMP0 \<longrightarrow> has_flag f OPFLG_JUMP) OPFLG_INITIALIZER"
  by (simp add: OPFLG_INITIALIZER_def has_flag_def OPFLG_defs)

lemma jump_not_p2_data_all:
  "list_all
     (\<lambda>f. has_flag f OPFLG_JUMP \<longrightarrow> \<not> has_flag f OPFLG_IN2 \<and> \<not> has_flag f OPFLG_OUT2)
     OPFLG_INITIALIZER"
  by (simp add: OPFLG_INITIALIZER_def has_flag_def OPFLG_defs)

lemma one_output_all:
  "list_all (\<lambda>f. \<not> (has_flag f OPFLG_OUT2 \<and> has_flag f OPFLG_OUT3)) OPFLG_INITIALIZER"
  by (simp add: OPFLG_INITIALIZER_def has_flag_def OPFLG_defs)

lemma OP_Init_flags: "OPFLG_INITIALIZER ! OP_Init = 0x81"
  by (simp add: OP_Init_def OPFLG_INITIALIZER_def)

section \<open>The maximum jump opcode\<close>

text \<open>
  C1. \<open>SQLITE_MX_JUMP_OPCODE\<close>, which is 65, is the largest opcode whose table entry has
  the \<open>OPFLG_JUMP\<close> bit: every opcode value \<open>v\<close> from 0 to 190 whose entry has the bit is
  at most \<open>SQLITE_MX_JUMP_OPCODE\<close>, and the entry of \<open>SQLITE_MX_JUMP_OPCODE\<close> itself has
  the bit.
\<close>

theorem SQLITE_MX_JUMP_OPCODE_is_max:
  "(v \<le> 190 \<and> has_flag (OPFLG_INITIALIZER ! v) OPFLG_JUMP \<longrightarrow> v \<le> SQLITE_MX_JUMP_OPCODE)
   \<and> has_flag (OPFLG_INITIALIZER ! SQLITE_MX_JUMP_OPCODE) OPFLG_JUMP
   \<and> SQLITE_MX_JUMP_OPCODE = 65"
  using jump_le_mx [of v] mx_is_jump by (simp add: SQLITE_MX_JUMP_OPCODE_def)

theorem SQLITE_MX_JUMP_OPCODE_is_max_witness:
  "OP_Init \<le> 190 \<and> has_flag (OPFLG_INITIALIZER ! OP_Init) OPFLG_JUMP
   \<and> OP_Init \<le> SQLITE_MX_JUMP_OPCODE"
  using SQLITE_MX_JUMP_OPCODE_is_max [of OP_Init]
  by (simp add: OP_Init_flags has_flag_def OPFLG_JUMP_def) (simp add: OP_Init_def)

section \<open>Invariants of the property bytes\<close>

text \<open>
  C4. For every opcode value from 0 to 190: when the table entry has the \<open>OPFLG_JUMP0\<close>
  bit (the jump target may be zero), it also has the \<open>OPFLG_JUMP\<close> bit. The allowance
  of a zero target occurs on jump opcodes only.
\<close>

theorem JUMP0_implies_JUMP:
  assumes "v \<le> 190" and "has_flag (OPFLG_INITIALIZER ! v) OPFLG_JUMP0"
  shows "has_flag (OPFLG_INITIALIZER ! v) OPFLG_JUMP"
  using OPFLG_table_all [OF jump0_jump_all assms(1)] assms(2) by simp

theorem JUMP0_implies_JUMP_witness:
  "OP_Init \<le> 190 \<and> has_flag (OPFLG_INITIALIZER ! OP_Init) OPFLG_JUMP0
   \<and> has_flag (OPFLG_INITIALIZER ! OP_Init) OPFLG_JUMP"
proof -
  have a: "OP_Init \<le> 190"
    by (simp add: OP_Init_def)
  have b: "has_flag (OPFLG_INITIALIZER ! OP_Init) OPFLG_JUMP0"
    by (simp add: OP_Init_flags has_flag_def OPFLG_JUMP0_def)
  from a b JUMP0_implies_JUMP [OF a b] show ?thesis
    by simp
qed

text \<open>
  C8. For every opcode value from 0 to 190: when the table entry has the \<open>OPFLG_JUMP\<close>
  bit, it has neither the \<open>OPFLG_IN2\<close> bit nor the \<open>OPFLG_OUT2\<close> bit. An operand P2 that
  holds a jump target is never declared a register input or a register output.
\<close>

theorem JUMP_excludes_IN2_OUT2:
  assumes "v \<le> 190" and "has_flag (OPFLG_INITIALIZER ! v) OPFLG_JUMP"
  shows "\<not> has_flag (OPFLG_INITIALIZER ! v) OPFLG_IN2
    \<and> \<not> has_flag (OPFLG_INITIALIZER ! v) OPFLG_OUT2"
  using OPFLG_table_all [OF jump_not_p2_data_all assms(1)] assms(2) by simp

theorem JUMP_excludes_IN2_OUT2_witness:
  "OP_RowSetRead \<le> 190 \<and> has_flag (OPFLG_INITIALIZER ! OP_RowSetRead) OPFLG_JUMP
   \<and> \<not> has_flag (OPFLG_INITIALIZER ! OP_RowSetRead) OPFLG_IN2
   \<and> \<not> has_flag (OPFLG_INITIALIZER ! OP_RowSetRead) OPFLG_OUT2"
proof -
  have a: "OP_RowSetRead \<le> 190"
    by (simp add: OP_RowSetRead_def)
  have b: "has_flag (OPFLG_INITIALIZER ! OP_RowSetRead) OPFLG_JUMP"
    by (simp add: OP_RowSetRead_def OPFLG_INITIALIZER_def has_flag_def OPFLG_JUMP_def)
  from a b JUMP_excludes_IN2_OUT2 [OF a b] show ?thesis
    by simp
qed

text \<open>
  C9. For every opcode value from 0 to 190, the table entry never has both the
  \<open>OPFLG_OUT2\<close> bit and the \<open>OPFLG_OUT3\<close> bit: an opcode declares at most one output
  register.
\<close>

theorem at_most_one_output:
  assumes "v \<le> 190"
  shows "\<not> (has_flag (OPFLG_INITIALIZER ! v) OPFLG_OUT2
    \<and> has_flag (OPFLG_INITIALIZER ! v) OPFLG_OUT3)"
  using OPFLG_table_all [OF one_output_all assms] by simp

theorem at_most_one_output_witness:
  "OP_OffsetLimit \<le> 190
   \<and> \<not> (has_flag (OPFLG_INITIALIZER ! OP_OffsetLimit) OPFLG_OUT2
      \<and> has_flag (OPFLG_INITIALIZER ! OP_OffsetLimit) OPFLG_OUT3)"
proof -
  have a: "OP_OffsetLimit \<le> 190"
    by (simp add: OP_OffsetLimit_def)
  from a at_most_one_output [OF a] show ?thesis
    by simp
qed

section \<open>The property bits\<close>

text \<open>
  C5. There are exactly eight property bits, for jump, input 1, input 2, input 3,
  output 2, output 3, cycle accounting against the cursor P1, and a jump target that
  may be zero. Their values are the eight distinct single-bit constants 0x01, 0x02,
  0x04, 0x08, 0x10, 0x20, 0x40, 0x80 (the \<open>i\<close>-th is \<open>2 ^ i\<close>); they are pairwise
  disjoint, and together they cover every bit of a byte.
\<close>

theorem OPFLG_roles_partition_byte:
  "OPFLG_roles = [0x01, 0x02, 0x04, 0x08, 0x10, 0x20, 0x40, 0x80]
   \<and> length OPFLG_roles = 8
   \<and> distinct OPFLG_roles
   \<and> OPFLG_roles = map (\<lambda>i. 2 ^ i) [0..<8]
   \<and> disjoint_masks OPFLG_roles
   \<and> foldr (OR) OPFLG_roles 0 = 0xFF
   \<and> foldr (OR) OPFLG_roles 0 = NOT 0"
proof -
  have powers: "OPFLG_roles = map (\<lambda>i. 2 ^ i) [0..<8]"
    by code_simp
  have "OPFLG_roles = [0x01, 0x02, 0x04, 0x08, 0x10, 0x20, 0x40, 0x80]"
    and "length OPFLG_roles = 8"
    and "distinct OPFLG_roles"
    and "disjoint_masks OPFLG_roles"
    and "foldr (OR) OPFLG_roles 0 = 0xFF"
    and "foldr (OR) OPFLG_roles 0 = NOT 0"
    by (simp_all add: OPFLG_roles_def OPFLG_defs)
  with powers show ?thesis
    by blast
qed

section \<open>Opcode numbers and the size of the table\<close>

lemma opcode_values_consecutive: "map macro_value opcode_table = [0..<191]"
  by code_simp

lemma opcode_table_length: "length opcode_table = 191"
  using arg_cong [OF opcode_values_consecutive, of length] by simp

lemma macro_value_bound:
  assumes "d \<in> set opcode_table"
  shows "macro_value d \<le> 190"
proof -
  from assms have "macro_value d \<in> set (map macro_value opcode_table)"
    by simp
  then show ?thesis
    unfolding opcode_values_consecutive by simp
qed

lemma opcode_table_first:
  "opcode_table ! 0 =
    \<lparr>macro_name = ''OP_Savepoint'', macro_value = OP_Savepoint, properties = []\<rparr>"
  by (simp add: opcode_table_def)

lemma opcode_table_last:
  "opcode_table ! 190 =
    \<lparr>macro_name = ''OP_Abortable'', macro_value = OP_Abortable, properties = []\<rparr>"
  by (simp add: opcode_table_def)

lemma opcode_table_Init:
  "opcode_table ! 8 =
    \<lparr>macro_name = ''OP_Init'', macro_value = OP_Init, properties = [''jump0'']\<rparr>"
  by (simp add: opcode_table_def)

text \<open>
  C6. The opcode macros take the consecutive, pairwise distinct values 0 to 190, in the
  order of the header: there are 191 of them, the first is \<open>OP_Savepoint = 0\<close> and the
  last is \<open>OP_Abortable = 190\<close>. \<open>OPFLG_INITIALIZER\<close> has exactly 191 entries, so the
  value of every defined opcode is an index of the table.
\<close>

theorem opcode_values_index_the_table:
  "map macro_value opcode_table = [0..<191]
   \<and> distinct (map macro_value opcode_table)
   \<and> length opcode_table = 191
   \<and> macro_name (opcode_table ! 0) = ''OP_Savepoint'' \<and> OP_Savepoint = 0
   \<and> macro_name (opcode_table ! 190) = ''OP_Abortable'' \<and> OP_Abortable = 190
   \<and> length OPFLG_INITIALIZER = 191
   \<and> (d \<in> set opcode_table \<longrightarrow> macro_value d < length OPFLG_INITIALIZER)"
proof -
  have "distinct (map macro_value opcode_table)"
    unfolding opcode_values_consecutive by simp
  moreover have "d \<in> set opcode_table \<longrightarrow> macro_value d < length OPFLG_INITIALIZER"
    using macro_value_bound [of d] by (auto simp add: OPFLG_INITIALIZER_length)
  ultimately show ?thesis
    by (simp add: opcode_values_consecutive opcode_table_length opcode_table_first
        opcode_table_last OPFLG_INITIALIZER_length OP_Savepoint_def OP_Abortable_def)
qed

theorem opcode_values_index_the_table_witness:
  "opcode_table ! 190 \<in> set opcode_table
   \<and> macro_value (opcode_table ! 190) < length OPFLG_INITIALIZER"
proof -
  have a: "opcode_table ! 190 \<in> set opcode_table"
    by (rule nth_mem) (simp add: opcode_table_length)
  with opcode_values_index_the_table [of "opcode_table ! 190"] show ?thesis
    by blast
qed

section \<open>The comments and the property bytes\<close>

lemma jump0_annotation_all:
  "list_all
     (\<lambda>d. has_flag (OPFLG_INITIALIZER ! macro_value d) OPFLG_JUMP0
        = (''jump0'' \<in> set (properties d)))
     opcode_table"
  by code_simp

lemma jump_annotation_all:
  "list_all
     (\<lambda>d. has_flag (OPFLG_INITIALIZER ! macro_value d) OPFLG_JUMP
        = (''jump'' \<in> set (properties d) \<or> ''jump0'' \<in> set (properties d)))
     opcode_table"
  by code_simp

text \<open>
  C10. For every opcode definition of the header, the table entry of the opcode has the
  \<open>OPFLG_JUMP\<close> bit exactly when the comment of the definition carries \<open>jump\<close> or
  \<open>jump0\<close>, and it has the \<open>OPFLG_JUMP0\<close> bit exactly when the comment carries \<open>jump0\<close>.
\<close>

theorem jump_annotations_agree_with_table:
  assumes "d \<in> set opcode_table"
  shows "(has_flag (OPFLG_INITIALIZER ! macro_value d) OPFLG_JUMP
           \<longleftrightarrow> ''jump'' \<in> set (properties d) \<or> ''jump0'' \<in> set (properties d))
       \<and> (has_flag (OPFLG_INITIALIZER ! macro_value d) OPFLG_JUMP0
           \<longleftrightarrow> ''jump0'' \<in> set (properties d))"
  using assms jump0_annotation_all jump_annotation_all by (simp add: list_all_iff)

theorem jump_annotations_agree_with_table_witness:
  "opcode_table ! 8 \<in> set opcode_table
   \<and> macro_name (opcode_table ! 8) = ''OP_Init''
   \<and> has_flag (OPFLG_INITIALIZER ! macro_value (opcode_table ! 8)) OPFLG_JUMP
   \<and> has_flag (OPFLG_INITIALIZER ! macro_value (opcode_table ! 8)) OPFLG_JUMP0
   \<and> ''jump0'' \<in> set (properties (opcode_table ! 8))"
proof -
  have a: "opcode_table ! 8 \<in> set opcode_table"
    by (rule nth_mem) (simp add: opcode_table_length)
  from a jump_annotations_agree_with_table [OF a] show ?thesis
    by (simp add: opcode_table_Init)
qed

section \<open>Comparison and arithmetic opcodes\<close>

lemma arithmetic_flags:
  "list_all (\<lambda>op. OPFLG_INITIALIZER ! op = 0x26) arithmetic_family"
  by (simp add: arithmetic_family_def opcode_values OPFLG_INITIALIZER_def)

lemma comparison_flags:
  "list_all (\<lambda>op. OPFLG_INITIALIZER ! op = 0x0b) comparison_family"
  by (simp add: comparison_family_def opcode_values OPFLG_INITIALIZER_def)

lemma roles_0x26:
  "declared_inputs 0x26 = [1, 2]" "declared_outputs 0x26 = [3]" "\<not> has_flag 0x26 OPFLG_JUMP"
  by (simp_all add: declared_inputs_def declared_outputs_def has_flag_def OPFLG_defs)

lemma roles_0x0b:
  "declared_inputs 0x0b = [1, 3]" "declared_outputs 0x0b = []" "has_flag 0x0b OPFLG_JUMP"
  by (simp_all add: declared_inputs_def declared_outputs_def has_flag_def OPFLG_defs)

text \<open>
  C3, as stated: every comparison opcode and every arithmetic opcode is, by its table
  entry, a binary operation with two declared register inputs and one declared
  register output. This fails for \<open>OP_Ne\<close>, whose entry 0x0b declares the inputs P1 and
  P3 and no output.
\<close>

theorem OP_Ne_declares_no_output:
  "OP_Ne \<in> set comparison_family \<and> \<not> binary_register_op (OPFLG_INITIALIZER ! OP_Ne)"
  by (simp add: comparison_family_def)
    (simp add: OP_Ne_def OPFLG_INITIALIZER_def binary_register_op_def roles_0x0b)

text \<open>
  C3, amended: every arithmetic opcode is, by its table entry, a binary operation with
  the two declared register inputs P1 and P2 and the one declared register output P3,
  and it is not a jump. Every comparison opcode declares the two register inputs P1
  and P3 and no register output; it is a jump, with its target in P2.
\<close>

theorem arithmetic_binary_comparison_jump:
  "(op \<in> set arithmetic_family \<longrightarrow>
      binary_register_op (OPFLG_INITIALIZER ! op)
      \<and> declared_inputs (OPFLG_INITIALIZER ! op) = [1, 2]
      \<and> declared_outputs (OPFLG_INITIALIZER ! op) = [3]
      \<and> \<not> has_flag (OPFLG_INITIALIZER ! op) OPFLG_JUMP)
   \<and> (op \<in> set comparison_family \<longrightarrow>
      declared_inputs (OPFLG_INITIALIZER ! op) = [1, 3]
      \<and> declared_outputs (OPFLG_INITIALIZER ! op) = []
      \<and> has_flag (OPFLG_INITIALIZER ! op) OPFLG_JUMP)"
  using arithmetic_flags comparison_flags
  by (auto simp add: list_all_iff binary_register_op_def roles_0x26 roles_0x0b)

theorem arithmetic_binary_comparison_jump_witness:
  "OP_Add \<in> set arithmetic_family \<and> binary_register_op (OPFLG_INITIALIZER ! OP_Add)
   \<and> OP_Ne \<in> set comparison_family \<and> declared_outputs (OPFLG_INITIALIZER ! OP_Ne) = []"
proof -
  have a: "OP_Add \<in> set arithmetic_family"
    by (simp add: arithmetic_family_def)
  have b: "OP_Ne \<in> set comparison_family"
    by (simp add: comparison_family_def)
  from a b arithmetic_binary_comparison_jump [of OP_Add]
    arithmetic_binary_comparison_jump [of OP_Ne]
  show ?thesis
    by blast
qed

section \<open>Correctness of the resolution pass\<close>






















end
